theory Spec2Isabelle
  imports Main "HOL-Library.Log_Nat"
begin

section \<open>C values\<close>

text \<open>
  A C \<open>int\<close> is modelled as an Isabelle \<open>int\<close> holding a value of the 32-bit range; the
  one expression of \<open>transform.c\<close> that can leave that range (\<open>maj * 1000 + min\<close>) is
  wrapped explicitly with \<open>wrap32\<close>. An \<open>unsigned int\<close>, an \<open>unsigned long\<close> and an X
  resource id (\<open>Atom\<close>, \<open>RROutput\<close>, \<open>RRCrtc\<close>) is a \<open>nat\<close>, a pointer is a \<open>nat\<close>
  address with \<open>NULL = 0\<close>. A C string is the \<open>string\<close> of its characters before the
  terminating NUL.
\<close>

definition EXIT_SUCCESS :: int where
  "EXIT_SUCCESS = 0"

definition EXIT_FAILURE :: int where
  "EXIT_FAILURE = 1"

definition Success :: int where
  "Success = 0"

definition PropModeReplace :: int where
  "PropModeReplace = 0"

definition RR_Connected :: nat where
  "RR_Connected = 0"

definition NULL :: nat where
  "NULL = 0"

definition wrap32 :: "int \<Rightarrow> int" where
  \<comment> \<open>two's-complement reduction of a value to the 32-bit signed range\<close>
  "wrap32 i = (i + 2147483648) mod 4294967296 - 2147483648"

definition int_of_unsigned :: "nat \<Rightarrow> int" where
  \<comment> \<open>an \<open>unsigned int\<close> argument passed for an \<open>int\<close> parameter\<close>
  "int_of_unsigned u = wrap32 (int u)"

definition char_to_int :: "char \<Rightarrow> int" where
  \<comment> \<open>integer promotion of a plain \<open>char\<close>, which is signed on the x86 ABIs\<close>
  "char_to_int c = (let n = of_char c in if n < 128 then n else n - 256)"

definition strlen :: "string \<Rightarrow> nat" where
  "strlen s = length s"

text \<open>
  The C standard fixes the sign of what \<open>strcmp\<close> and \<open>strncmp\<close> return, not the
  magnitude; characters compare as \<open>unsigned char\<close>, and a string that ends first is
  the smaller one.
\<close>

fun strcmp :: "string \<Rightarrow> string \<Rightarrow> int" where
  "strcmp [] [] = 0"
| "strcmp [] (b # s2) = - 1"
| "strcmp (a # s1) [] = 1"
| "strcmp (a # s1) (b # s2) =
     (if a = b then strcmp s1 s2
      else if (of_char a :: nat) < of_char b then - 1 else 1)"

definition strncmp :: "string \<Rightarrow> string \<Rightarrow> nat \<Rightarrow> int" where
  \<comment> \<open>at most the first \<open>n\<close> characters are compared\<close>
  "strncmp s1 s2 n = strcmp (take n s1) (take n s2)"

section \<open>Floating point\<close>

text \<open>
  A value of a binary floating-point format: a finite number (\<open>Finite 0\<close> is \<open>+0.0\<close>), the
  negative zero, an infinity, or a NaN. \<open>double\<close> and \<open>float\<close> share the type; the
  precision is in the operations, which round to nearest with ties to even.
\<close>

datatype ieee = Finite rat | MinusZero | PlusInf | MinusInf | NaN

definition pow2 :: "int \<Rightarrow> rat" where
  "pow2 k = (if 0 \<le> k then 2 ^ nat k else 1 / 2 ^ nat (- k))"

definition round_even :: "rat \<Rightarrow> int" where
  "round_even x =
     (let f = \<lfloor>x\<rfloor>; r = x - of_int f
      in if r < 1 / 2 then f
         else if 1 / 2 < r then f + 1
         else if even f then f else f + 1)"

definition ilog2 :: "rat \<Rightarrow> int" where
  \<comment> \<open>the binary exponent \<open>e\<close> of a nonzero \<open>x\<close>: \<open>2 ^ e \<le> \<bar>x\<bar> < 2 ^ (e + 1)\<close>\<close>
  "ilog2 x =
     (let (a, b) = quotient_of \<bar>x\<bar>; la = bitlen a; lb = bitlen b
      in if a * 2 ^ nat lb < b * 2 ^ nat la then la - lb - 1 else la - lb)"

definition round_prec :: "nat \<Rightarrow> rat \<Rightarrow> rat" where
  \<comment> \<open>\<open>x\<close> rounded to a significand of \<open>p\<close> bits\<close>
  "round_prec p x =
     (if x = 0 then 0
      else let s = int p - 1 - ilog2 x in of_int (round_even (x * pow2 s)) / pow2 s)"

definition double_of_int :: "int \<Rightarrow> ieee" where
  \<comment> \<open>exact: a 32-bit integer fits the 53-bit significand of a \<open>double\<close>\<close>
  "double_of_int i = Finite (of_int i)"

definition double_div :: "int \<Rightarrow> int \<Rightarrow> ieee" where
  \<comment> \<open>\<open>1.0 * a / b\<close> for \<open>int\<close> operands: both are converted to \<open>double\<close>, the product
      with \<open>1.0\<close> is exact, and the quotient \<open>q\<close>, with \<open>2 ^ -31 \<le> \<bar>q\<bar> \<le> 2 ^ 31\<close> when it is
      not zero, neither overflows nor underflows\<close>
  "double_div a b =
     (if b = 0 then (if a = 0 then NaN else if 0 < a then PlusInf else MinusInf)
      else if a = 0 then (if b < 0 then MinusZero else Finite 0)
      else Finite (round_prec 53 (of_int a / of_int b)))"

definition float_of_double :: "ieee \<Rightarrow> ieee" where
  \<comment> \<open>the conversion of the initialisation \<open>float x = ...\<close>, for the values
      \<open>double_div\<close> yields (all within the normal range of \<open>float\<close>)\<close>
  "float_of_double d = (case d of Finite q \<Rightarrow> Finite (round_prec 24 q) | _ \<Rightarrow> d)"

section \<open>Matrix utility\<close>

text \<open>\<open>struct Matrix { float m[9]; }\<close>: the array of its one field, row-major.\<close>

type_synonym Matrix = "ieee list"

definition matrix_set :: "Matrix \<Rightarrow> nat \<Rightarrow> nat \<Rightarrow> ieee \<Rightarrow> Matrix" where
  \<comment> \<open>every call of the unit passes literal \<open>row\<close> and \<open>col\<close> from 0 to 2, so the write is
      within the nine floats\<close>
  "matrix_set m row col val = m[row * 3 + col := val]"

definition memset_zero :: "Matrix \<Rightarrow> Matrix" where
  \<comment> \<open>\<open>memset(m, 0, sizeof(m->m))\<close>: all nine floats become \<open>+0.0\<close>\<close>
  "memset_zero m = replicate 9 (Finite 0)"

definition matrix_set_unity :: "Matrix \<Rightarrow> Matrix" where
  "matrix_set_unity m =
     (let m = memset_zero m;
          m = matrix_set m 0 0 (Finite 1);
          m = matrix_set m 1 1 (Finite 1);
          m = matrix_set m 2 2 (Finite 1)
      in m)"

definition uninitialised :: Matrix where
  \<comment> \<open>the contents of a local \<open>Matrix m;\<close> before its first write; any value would do,
      as \<open>matrix_set_unity\<close> overwrites all of it\<close>
  "uninitialised = replicate 9 NaN"

section \<open>The display connection and the process's effects\<close>

datatype stream = Stdout | Stderr

datatype arg = S string | I int

text \<open>The calls that act on the world outside the unit, in the order they are made.\<close>

datatype event =
    Fprintf stream string "arg list"
  | ChangeProperty int nat nat int int "ieee list" nat
  | Free nat
  | FreeScreenResources

record XIPropertyReply =
  rc :: int
  type_return :: nat
  format_return :: int
  nitems :: nat
  bytes_after :: nat
  data :: nat
  data_f :: "ieee list"

record XRROutputInfo =
  oi_crtc :: nat
  oi_connection :: nat
  oi_name :: string

record XRRCrtcInfo =
  ci_x :: int
  ci_y :: int
  ci_width :: nat
  ci_height :: nat

record XineramaScreenInfo =
  x_org :: int
  y_org :: int
  si_width :: int
  si_height :: int

text \<open>
  \<open>Display\<close>: what the X server and the libraries answer to each query the unit makes
  (one field per library function, named after it), the device properties the server
  holds, and the log of effects. \<open>data\<close> of a property reply is the address of the
  returned buffer and \<open>data_f\<close> its contents read through \<open>data.f\<close>;
  \<open>XineramaQueryScreens\<close> gives the address of the array and its elements, whose number
  is \<open>nscreens\<close>; \<open>xi2_find_device_info\<close> gives the \<open>deviceid\<close> of the device found.
\<close>

record Display =
  DisplayWidth :: int
  DisplayHeight :: int
  XInternAtom :: "string \<Rightarrow> bool \<Rightarrow> nat"
  XIGetProperty :: "int \<Rightarrow> nat \<Rightarrow> nat \<Rightarrow> nat \<Rightarrow> bool \<Rightarrow> nat \<Rightarrow> XIPropertyReply"
  XQueryExtension :: "string \<Rightarrow> bool"
  XRRQueryVersion :: "(int \<times> int) option"
  XRRGetScreenResources :: "nat list"
  XRRGetOutputInfo :: "nat \<Rightarrow> XRROutputInfo"
  XRRGetCrtcInfo :: "nat \<Rightarrow> XRRCrtcInfo"
  XineramaQueryExtension :: bool
  XineramaQueryScreens :: "nat \<times> XineramaScreenInfo list"
  xi2_find_device_info :: "string \<Rightarrow> int option"
  props :: "int \<times> nat \<rightharpoonup> nat \<times> int \<times> ieee list"
  effects :: "event list"

definition fprintf :: "Display \<Rightarrow> stream \<Rightarrow> string \<Rightarrow> arg list \<Rightarrow> Display" where
  "fprintf dpy f fmt args = dpy\<lparr>effects := effects dpy @ [Fprintf f fmt args]\<rparr>"

definition XIChangeProperty ::
  "Display \<Rightarrow> int \<Rightarrow> nat \<Rightarrow> nat \<Rightarrow> int \<Rightarrow> int \<Rightarrow> ieee list \<Rightarrow> nat \<Rightarrow> Display" where
  \<comment> \<open>with \<open>PropModeReplace\<close> the property becomes the \<open>num_items\<close> elements sent\<close>
  "XIChangeProperty dpy deviceid property type format mode buf num_items =
     dpy\<lparr>props := (if mode = PropModeReplace
                    then (props dpy)((deviceid, property) \<mapsto> (type, format, take num_items buf))
                    else props dpy),
         effects := effects dpy @
                    [ChangeProperty deviceid property type format mode buf num_items]\<rparr>"

definition XFree :: "Display \<Rightarrow> nat \<Rightarrow> Display" where
  "XFree dpy p = dpy\<lparr>effects := effects dpy @ [Free p]\<rparr>"

definition XRRFreeScreenResources :: "Display \<Rightarrow> Display" where
  "XRRFreeScreenResources dpy = dpy\<lparr>effects := effects dpy @ [FreeScreenResources]\<rparr>"

definition memcpy :: "ieee list \<Rightarrow> Matrix \<Rightarrow> nat \<Rightarrow> ieee list" where
  \<comment> \<open>\<open>memcpy(dst, src, n * sizeof(float))\<close>: the first \<open>n\<close> floats of \<open>dst\<close> replaced\<close>
  "memcpy dst src n = take n src @ drop n dst"

section \<open>Property applier\<close>

definition apply_matrix :: "Display \<Rightarrow> int \<Rightarrow> Matrix \<Rightarrow> int \<times> Display" where
  "apply_matrix dpy deviceid m =
     (let prop_float = XInternAtom dpy ''FLOAT'' False;
          prop_matrix = XInternAtom dpy ''Coordinate Transformation Matrix'' False
      in if prop_float = 0 then
           (EXIT_FAILURE,
            fprintf dpy Stderr ''Float atom not found. This server is too old.\<newline>'' [])
         else if prop_matrix = 0 then
           (EXIT_FAILURE,
            fprintf dpy Stderr
              ''Coordinate transformation matrix not found. This server is too old\<newline>'' [])
         else
           let r = XIGetProperty dpy deviceid prop_matrix 0 9 False prop_float
           in if rc r \<noteq> Success \<or> prop_float \<noteq> type_return r \<or> format_return r \<noteq> 32 \<or>
                 nitems r \<noteq> 9 \<or> bytes_after r \<noteq> 0 then
                (EXIT_FAILURE,
                 fprintf dpy Stderr ''Failed to retrieve current property values\<newline>'' [])
              else
                let buf = memcpy (data_f r) m 9;
                    dpy = XIChangeProperty dpy deviceid prop_matrix prop_float
                            (format_return r) PropModeReplace buf (nitems r);
                    dpy = XFree dpy (data r)
                in (EXIT_SUCCESS, dpy))"

section \<open>Transformation builder\<close>

definition set_transformation_matrix ::
  "Display \<Rightarrow> Matrix \<Rightarrow> int \<Rightarrow> int \<Rightarrow> int \<Rightarrow> int \<Rightarrow> Matrix" where
  "set_transformation_matrix dpy m offset_x offset_y screen_width screen_height =
     (let width = DisplayWidth dpy;
          height = DisplayHeight dpy;
          x = float_of_double (double_div offset_x width);
          y = float_of_double (double_div offset_y height);
          w = float_of_double (double_div screen_width width);
          h = float_of_double (double_div screen_height height);
          m = matrix_set_unity m;
          m = matrix_set m 0 2 x;
          m = matrix_set m 1 2 y;
          m = matrix_set m 0 0 w;
          m = matrix_set m 1 1 h
      in m)"

section \<open>RandR resolver\<close>

text \<open>
  The \<open>for\<close> loop over \<open>res->outputs\<close>: the result is \<open>Some crtc_info\<close> when the loop
  leaves with \<open>found = 1\<close>, and \<open>None\<close> when it runs out of outputs.
\<close>

fun scan_outputs :: "Display \<Rightarrow> string \<Rightarrow> nat list \<Rightarrow> XRRCrtcInfo option" where
  "scan_outputs dpy output_name [] = None"
| "scan_outputs dpy output_name (output # outputs) =
     (let output_info = XRRGetOutputInfo dpy output
      in if oi_crtc output_info = 0 \<or> oi_connection output_info \<noteq> RR_Connected then
           scan_outputs dpy output_name outputs
         else
           let crtc_info = XRRGetCrtcInfo dpy (oi_crtc output_info)
           in if strcmp (oi_name output_info) output_name = 0 then Some crtc_info
              else scan_outputs dpy output_name outputs)"

definition map_crtc_xrandr :: "Display \<Rightarrow> int \<Rightarrow> string \<Rightarrow> int \<times> Display" where
  "map_crtc_xrandr dpy deviceid output_name =
     (let res = XRRGetScreenResources dpy;
          (rc, dpy) =
            (case scan_outputs dpy output_name res of
               Some crtc_info \<Rightarrow>
                 let m = matrix_set_unity uninitialised;
                     m = set_transformation_matrix dpy m (ci_x crtc_info) (ci_y crtc_info)
                           (int_of_unsigned (ci_width crtc_info))
                           (int_of_unsigned (ci_height crtc_info))
                 in apply_matrix dpy deviceid m
             | None \<Rightarrow>
                 (EXIT_FAILURE,
                  fprintf dpy Stdout
                    ''Unable to find output '%s'. Output may not be connected.\<newline>''
                    [S output_name]))
      in (rc, XRRFreeScreenResources dpy))"

section \<open>Xinerama resolver\<close>

text \<open>
  C does not check an array index: a read outside the array is undefined behaviour,
  which the model makes a result of its own, \<open>Inl OutOfBounds\<close>. After the two tests on
  \<open>nscreens\<close> the index \<open>head\<close> is below \<open>nscreens\<close>, so \<open>screens[head]\<close> is outside the
  array exactly when \<open>head\<close> is negative.
\<close>

datatype fault = OutOfBounds

definition map_crtc_xinerama :: "Display \<Rightarrow> int \<Rightarrow> string \<Rightarrow> fault + int \<times> Display" where
  "map_crtc_xinerama dpy deviceid output_name =
     (let prefix = ''HEAD-'' in
      if \<not> XineramaQueryExtension dpy then
        Inr (EXIT_FAILURE,
             XFree (fprintf dpy Stderr
                      ''Unable to set screen mapping. Xinerama extension not found\<newline>'' [])
                   NULL)
      else if strlen output_name < strlen prefix + 1 \<or>
              strncmp output_name prefix (strlen prefix) \<noteq> 0 then
        Inr (EXIT_FAILURE,
             XFree (fprintf dpy Stderr
                      ''Please specify the output name as HEAD-X,where X is the screen number\<newline>''
                      [])
                   NULL)
      else
        let head = char_to_int (output_name ! strlen prefix) - char_to_int CHR ''0'';
            (screens, screen_array) = XineramaQueryScreens dpy;
            nscreens = int (length screen_array)
        in if nscreens = 0 then
             Inr (EXIT_FAILURE,
                  XFree (fprintf dpy Stderr ''Xinerama failed to query screens.\<newline>'' [])
                        screens)
           else if nscreens \<le> head then
             Inr (EXIT_FAILURE,
                  XFree (fprintf dpy Stderr ''Found %d screens, but you requested %s.\<newline>''
                           [I nscreens, S output_name])
                        screens)
           else if head < 0 then Inl OutOfBounds
           else
             let m = matrix_set_unity uninitialised;
                 scr = screen_array ! nat head;
                 m = set_transformation_matrix dpy m (x_org scr) (y_org scr)
                       (si_width scr) (si_height scr);
                 (rc, dpy) = apply_matrix dpy deviceid m
             in Inr (rc, XFree dpy screens))"

section \<open>Dispatcher\<close>

datatype backend = Xinerama | RandR

definition select_backend :: "Display \<Rightarrow> backend" where
  \<comment> \<open>the condition of the final \<open>if\<close> of \<open>map_to_crtc\<close>\<close>
  "select_backend dpy =
     (if XQueryExtension dpy ''NV-CONTROL'' \<or>
         \<not> XQueryExtension dpy ''RANDR'' \<or>
         (case XRRQueryVersion dpy of
            None \<Rightarrow> True
          | Some (maj, minor) \<Rightarrow> wrap32 (wrap32 (maj * 1000) + minor) < 1002)
      then Xinerama else RandR)"

text \<open>
  \<open>argv\<close> holds \<open>argc\<close> strings; a caller that passes fewer than it announces makes
  \<open>argv[0]\<close> or \<open>argv[1]\<close> a read outside the array, at the point where the code
  reads it: \<open>argv[0]\<close> for the device lookup, \<open>argv[1]\<close> only once the device is found.
\<close>

definition map_to_crtc ::
  "Display \<Rightarrow> int \<Rightarrow> string list \<Rightarrow> string \<Rightarrow> string \<Rightarrow> fault + int \<times> Display" where
  "map_to_crtc dpy argc argv name desc =
     (if argc < 2 then
        Inr (EXIT_FAILURE, fprintf dpy Stderr ''Usage: xinput %s %s\<newline>'' [S name, S desc])
      else if length argv < 1 then Inl OutOfBounds
      else
        case xi2_find_device_info dpy (argv ! 0) of
          None \<Rightarrow>
            Inr (EXIT_FAILURE,
                 fprintf dpy Stderr ''unable to find device %s\<newline>'' [S (argv ! 0)])
        | Some deviceid \<Rightarrow>
            if length argv < 2 then Inl OutOfBounds
            else
              let crtc_name = argv ! 1
              in (case select_backend dpy of
                    Xinerama \<Rightarrow> map_crtc_xinerama dpy deviceid crtc_name
                  | RandR \<Rightarrow> Inr (map_crtc_xrandr dpy deviceid crtc_name)))"

section \<open>Notions used in the statements\<close>

definition to_float :: "rat \<Rightarrow> rat" where
  \<comment> \<open>the \<open>float\<close> a real quotient becomes: rounded to \<open>double\<close> by the division, then
      to \<open>float\<close> by the initialisation\<close>
  "to_float q = round_prec 24 (round_prec 53 q)"

definition candidate :: "Display \<Rightarrow> string \<Rightarrow> nat \<Rightarrow> bool" where
  \<comment> \<open>an output that has a CRTC, is connected and bears the requested name\<close>
  "candidate dpy output_name output =
     (let output_info = XRRGetOutputInfo dpy output
      in oi_crtc output_info \<noteq> 0 \<and> oi_connection output_info = RR_Connected \<and>
         oi_name output_info = output_name)"

definition below_1_2 :: "int \<times> int \<Rightarrow> bool" where
  \<comment> \<open>a version \<open>major.minor\<close> below 1.2\<close>
  "below_1_2 v = (fst v < 1 \<or> (fst v = 1 \<and> snd v < 2))"

subsection \<open>A sample server\<close>

text \<open>
  A 1920x1080 display of two side-by-side monitors; output 10 (\<open>VGA1\<close>) is disconnected,
  output 11 (\<open>HDMI1\<close>) drives the right half. The device \<open>pen\<close> has id 12 and a
  well-formed transformation property.
\<close>

definition example_reply :: XIPropertyReply where
  "example_reply =
     \<lparr>rc = 0, type_return = 7, format_return = 32, nitems = 9, bytes_after = 0,
      data = 4096, data_f = replicate 9 (Finite 0)\<rparr>"

definition example_display :: Display where
  "example_display =
     \<lparr>DisplayWidth = 1920, DisplayHeight = 1080,
      XInternAtom = (\<lambda>name only_if_exists. if name = ''FLOAT'' then 7 else 8),
      XIGetProperty = (\<lambda>deviceid property offset len del type. example_reply),
      XQueryExtension = (\<lambda>name. name = ''RANDR''),
      XRRQueryVersion = Some (1, 3),
      XRRGetScreenResources = [10, 11],
      XRRGetOutputInfo =
        (\<lambda>output. if output = 10
           then \<lparr>oi_crtc = 0, oi_connection = 1, oi_name = ''VGA1''\<rparr>
           else \<lparr>oi_crtc = 5, oi_connection = 0, oi_name = ''HDMI1''\<rparr>),
      XRRGetCrtcInfo = (\<lambda>crtc. \<lparr>ci_x = 960, ci_y = 0, ci_width = 960, ci_height = 1080\<rparr>),
      XineramaQueryExtension = True,
      XineramaQueryScreens =
        (8192, [\<lparr>x_org = 0, y_org = 0, si_width = 960, si_height = 1080\<rparr>,
                \<lparr>x_org = 960, y_org = 0, si_width = 960, si_height = 1080\<rparr>]),
      xi2_find_device_info = (\<lambda>name. if name = ''pen'' then Some 12 else None),
      props = Map.empty,
      effects = []\<rparr>"

section \<open>Accuracy of the rounding\<close>

text \<open>
  Rounding to \<open>p\<close> bits moves a number by at most the fraction \<open>2 ^ -p\<close> of itself; the
  two roundings of \<open>to_float\<close> together by less than \<open>2 ^ -23\<close>.
\<close>

lemma pow2_powi: "pow2 k = 2 powi k"
  by (simp add: pow2_def power_int_def power_one_over inverse_eq_divide)

lemma pow2_pos: "0 < pow2 k"
  by (simp add: pow2_powi)

lemma pow2_add: "pow2 (i + j) = pow2 i * pow2 j"
  by (simp add: pow2_powi power_int_add)

lemma pow2_diff: "pow2 (i - j) = pow2 i / pow2 j"
  by (simp add: pow2_powi power_int_diff)

lemma pow2_nat: "0 \<le> k \<Longrightarrow> pow2 k = 2 ^ nat k"
  by (simp add: pow2_def)

lemma ilog2_bounds:
  assumes "x \<noteq> 0"
  shows "pow2 (ilog2 x) \<le> \<bar>x\<bar> \<and> \<bar>x\<bar> < pow2 (ilog2 x + 1)"
proof -
  obtain a b where q: "quotient_of \<bar>x\<bar> = (a, b)"
    by force
  have b: "0 < b"
    using quotient_of_denom_pos [OF q] .
  have x: "\<bar>x\<bar> = of_int a / of_int b"
    using quotient_of_div [OF q] .
  have a: "0 < a"
  proof -
    have "0 < \<bar>x\<bar>" using assms by simp
    then show ?thesis using b by (simp add: x zero_less_divide_iff)
  qed
  define la where "la = bitlen a"
  define lb where "lb = bitlen b"
  have la1: "1 \<le> la" and lb1: "1 \<le> lb"
    using a b by (simp_all add: la_def lb_def bitlen_alt_def)
  have ia: "2 ^ nat (la - 1) \<le> a" "a < 2 ^ nat la"
    using bitlen_bounds [OF a] by (simp_all add: la_def)
  have ib: "2 ^ nat (lb - 1) \<le> b" "b < 2 ^ nat lb"
    using bitlen_bounds [OF b] by (simp_all add: lb_def)
  have ra: "pow2 (la - 1) \<le> of_int a" "of_int a < pow2 la"
  proof -
    have "(of_int (2 ^ nat (la - 1)) :: rat) \<le> of_int a"
      using ia(1) by (simp only: of_int_le_iff)
    then show "pow2 (la - 1) \<le> of_int a"
      using la1 by (simp add: pow2_nat)
    have "(of_int a :: rat) < of_int (2 ^ nat la)"
      using ia(2) by (simp only: of_int_less_iff)
    then show "of_int a < pow2 la"
      using la1 by (simp add: pow2_nat)
  qed
  have rb: "pow2 (lb - 1) \<le> of_int b" "of_int b < pow2 lb"
  proof -
    have "(of_int (2 ^ nat (lb - 1)) :: rat) \<le> of_int b"
      using ib(1) by (simp only: of_int_le_iff)
    then show "pow2 (lb - 1) \<le> of_int b"
      using lb1 by (simp add: pow2_nat)
    have "(of_int b :: rat) < of_int (2 ^ nat lb)"
      using ib(2) by (simp only: of_int_less_iff)
    then show "of_int b < pow2 lb"
      using lb1 by (simp add: pow2_nat)
  qed
  have B: "(0::rat) < of_int b"
    using b by simp
  have cmp: "a * 2 ^ nat lb < b * 2 ^ nat la \<longleftrightarrow> \<bar>x\<bar> < pow2 (la - lb)"
  proof -
    have "a * 2 ^ nat lb < b * 2 ^ nat la \<longleftrightarrow>
        (of_int (a * 2 ^ nat lb) :: rat) < of_int (b * 2 ^ nat la)"
      by (simp only: of_int_less_iff)
    also have "\<dots> \<longleftrightarrow> of_int a * pow2 lb < of_int b * pow2 la"
      using la1 lb1 by (simp add: pow2_nat)
    also have "\<dots> \<longleftrightarrow> of_int a / of_int b < pow2 la / pow2 lb"
      using B pow2_pos [of lb] by (simp add: field_simps)
    finally show ?thesis
      by (simp add: x pow2_diff)
  qed
  have e: "ilog2 x = (if \<bar>x\<bar> < pow2 (la - lb) then la - lb - 1 else la - lb)"
    using cmp by (simp add: ilog2_def q la_def lb_def)
  have lower: "pow2 (la - lb - 1) \<le> \<bar>x\<bar>"
  proof -
    have "pow2 (la - lb - 1) = pow2 (la - 1) / pow2 lb"
      using pow2_diff [of "la - 1" lb] by (simp add: algebra_simps)
    also have "\<dots> \<le> of_int a / pow2 lb"
      using ra(1) pow2_pos [of lb] by (simp add: divide_right_mono)
    also have "\<dots> \<le> of_int a / of_int b"
      using rb(2) B a by (simp add: divide_left_mono)
    finally show ?thesis
      by (simp add: x)
  qed
  have upper: "\<bar>x\<bar> < pow2 (la - lb + 1)"
  proof -
    have "of_int a / of_int b < pow2 la / of_int b"
      using ra(2) B by (simp add: divide_strict_right_mono)
    also have "\<dots> \<le> pow2 la / pow2 (lb - 1)"
      using rb(1) pow2_pos [of "lb - 1"] pow2_pos [of la] by (simp add: divide_left_mono)
    also have "\<dots> = pow2 (la - lb + 1)"
      using pow2_diff [of la "lb - 1"] by (simp add: algebra_simps)
    finally show ?thesis
      by (simp add: x)
  qed
  show ?thesis
    using lower upper by (auto simp add: e)
qed

lemma round_even_error: "\<bar>of_int (round_even y) - y\<bar> \<le> 1 / 2"
proof -
  define r where "r = y - of_int \<lfloor>y\<rfloor>"
  have r: "0 \<le> r" "r < 1"
    unfolding r_def by linarith+
  have y: "y = of_int \<lfloor>y\<rfloor> + r"
    by (simp add: r_def)
  have re: "round_even y =
      (if r < 1 / 2 then \<lfloor>y\<rfloor> else if 1 / 2 < r then \<lfloor>y\<rfloor> + 1
       else if even \<lfloor>y\<rfloor> then \<lfloor>y\<rfloor> else \<lfloor>y\<rfloor> + 1)"
    unfolding round_even_def Let_def r_def by (rule refl)
  consider "r < 1 / 2" | "1 / 2 < r" | "r = 1 / 2"
    by linarith
  then show ?thesis
  proof cases
    case 1
    then have "of_int (round_even y) - y = - r"
      using y by (simp add: re)
    with 1 r show ?thesis
      by simp
  next
    case 2
    then have "of_int (round_even y) - y = 1 - r"
      using y by (simp add: re)
    with 2 r show ?thesis
      by simp
  next
    case 3
    then have "of_int (round_even y) - y = - r \<or> of_int (round_even y) - y = 1 - r"
      using y by (simp add: re)
    with 3 show ?thesis
      by auto
  qed
qed

lemma round_prec_error:
  "\<bar>round_prec p x - x\<bar> \<le> \<bar>x\<bar> / 2 ^ p"
proof (cases "x = 0")
  case True
  then show ?thesis
    by (simp add: round_prec_def)
next
  case False
  define s where "s = int p - 1 - ilog2 x"
  have r: "round_prec p x = of_int (round_even (x * pow2 s)) / pow2 s"
    using False by (simp add: round_prec_def s_def Let_def)
  have pos: "0 < pow2 s"
    by (rule pow2_pos)
  have "round_prec p x - x = (of_int (round_even (x * pow2 s)) - x * pow2 s) / pow2 s"
    using pos by (simp add: r field_simps)
  then have "\<bar>round_prec p x - x\<bar> = \<bar>of_int (round_even (x * pow2 s)) - x * pow2 s\<bar> / pow2 s"
    using pos by (simp add: abs_divide)
  also have "\<dots> \<le> (1 / 2) / pow2 s"
    using round_even_error [of "x * pow2 s"] pos by (intro divide_right_mono) simp_all
  also have "\<dots> = pow2 (ilog2 x) / 2 ^ p"
  proof -
    have one: "pow2 1 = 2"
      by (simp add: pow2_def)
    have "pow2 (int p) = pow2 (s + (ilog2 x + 1))"
      by (simp add: s_def)
    also have "\<dots> = pow2 s * (pow2 (ilog2 x) * 2)"
      by (simp only: pow2_add one)
    finally have "2 ^ p = pow2 s * (pow2 (ilog2 x) * 2)"
      by (simp add: pow2_def)
    then show ?thesis
      using pos pow2_pos [of "ilog2 x"] by (simp add: field_simps)
  qed
  also have "\<dots> \<le> \<bar>x\<bar> / 2 ^ p"
    using ilog2_bounds [OF False] by (simp add: divide_right_mono)
  finally show ?thesis .
qed

lemma to_float_error: "\<bar>to_float q - q\<bar> \<le> \<bar>q\<bar> / 2 ^ 23"
proof -
  define r where "r = round_prec 53 q"
  have 1: "\<bar>r - q\<bar> \<le> \<bar>q\<bar> / 2 ^ 53"
    unfolding r_def by (rule round_prec_error)
  have 2: "\<bar>to_float q - r\<bar> \<le> \<bar>r\<bar> / 2 ^ 24"
    unfolding to_float_def r_def by (rule round_prec_error)
  have "\<bar>r\<bar> \<le> \<bar>q\<bar> + \<bar>q\<bar> / 2 ^ 53"
    using 1 by linarith
  then have "\<bar>r\<bar> / 2 ^ 24 \<le> (\<bar>q\<bar> + \<bar>q\<bar> / 2 ^ 53) / 2 ^ 24"
    by (simp add: divide_right_mono)
  with 1 2 have "\<bar>to_float q - q\<bar> \<le> \<bar>q\<bar> / 2 ^ 53 + (\<bar>q\<bar> + \<bar>q\<bar> / 2 ^ 53) / 2 ^ 24"
    by linarith
  also have "\<dots> \<le> \<bar>q\<bar> / 2 ^ 23"
  proof -
    have "0 \<le> \<bar>q\<bar>" by simp
    then show ?thesis
      by simp
  qed
  finally show ?thesis .
qed

section \<open>The matrix and its entries\<close>

lemma matrix_set_unity_eq:
  "matrix_set_unity m =
     [Finite 1, Finite 0, Finite 0, Finite 0, Finite 1, Finite 0, Finite 0, Finite 0, Finite 1]"
  by (simp add: matrix_set_unity_def memset_zero_def matrix_set_def numeral_eq_Suc)

lemma set_transformation_matrix_eq:
  "set_transformation_matrix dpy m offset_x offset_y screen_width screen_height =
     [float_of_double (double_div screen_width (DisplayWidth dpy)), Finite 0,
      float_of_double (double_div offset_x (DisplayWidth dpy)),
      Finite 0, float_of_double (double_div screen_height (DisplayHeight dpy)),
      float_of_double (double_div offset_y (DisplayHeight dpy)),
      Finite 0, Finite 0, Finite 1]"
  by (simp add: set_transformation_matrix_def matrix_set_unity_eq matrix_set_def Let_def
      numeral_eq_Suc)

lemma float_ratio:
  "0 < b \<Longrightarrow> float_of_double (double_div a b) = Finite (to_float (of_int a / of_int b))"
  by (auto simp add: float_of_double_def double_div_def to_float_def round_prec_def)

lemma to_float_0: "to_float 0 = 0"
  by (simp add: to_float_def round_prec_def)

lemma to_float_1: "to_float 1 = 1"
proof -
  have "round_prec 53 1 = 1" "round_prec 24 1 = 1"
    by code_simp+
  then show ?thesis
    by (simp add: to_float_def)
qed

lemma to_float_half: "to_float (1 / 2) = 1 / 2"
  unfolding to_float_def by code_simp

lemma to_float_third: "to_float (1 / 3) = 11184811 / 33554432"
  unfolding to_float_def by code_simp

lemma to_float_two_thirds: "to_float (2 / 3) = 11184811 / 16777216"
  unfolding to_float_def by code_simp

text \<open>
  C1. On a display of positive width \<open>W\<close> and height \<open>H\<close>, the builder yields, whatever
  the rectangle, the matrix whose entry (0,0) is \<open>rect_w / W\<close>, (1,1) is \<open>rect_h / H\<close>,
  (0,2) is \<open>offset_x / W\<close> and (1,2) is \<open>offset_y / H\<close>, each quotient being the one the
  C expression computes: the real quotient rounded to \<open>double\<close> and stored in a \<open>float\<close>,
  a finite number within the fraction \<open>2 ^ -23\<close> of the real quotient. The entries (0,1)
  and (1,0) are 0 and the bottom row is 0, 0, 1.
\<close>

theorem builder_entries:
  assumes "0 < DisplayWidth dpy" and "0 < DisplayHeight dpy"
  shows "set_transformation_matrix dpy m offset_x offset_y rect_w rect_h =
     [Finite (to_float (of_int rect_w / of_int (DisplayWidth dpy))), Finite 0,
        Finite (to_float (of_int offset_x / of_int (DisplayWidth dpy))),
      Finite 0, Finite (to_float (of_int rect_h / of_int (DisplayHeight dpy))),
        Finite (to_float (of_int offset_y / of_int (DisplayHeight dpy))),
      Finite 0, Finite 0, Finite 1] \<and>
     (\<forall>q. \<bar>to_float q - q\<bar> \<le> \<bar>q\<bar> / 2 ^ 23)"
proof -
  have "set_transformation_matrix dpy m offset_x offset_y rect_w rect_h =
     [Finite (to_float (of_int rect_w / of_int (DisplayWidth dpy))), Finite 0,
        Finite (to_float (of_int offset_x / of_int (DisplayWidth dpy))),
      Finite 0, Finite (to_float (of_int rect_h / of_int (DisplayHeight dpy))),
        Finite (to_float (of_int offset_y / of_int (DisplayHeight dpy))),
      Finite 0, Finite 0, Finite 1]"
    using assms by (simp add: set_transformation_matrix_eq float_ratio)
  then show ?thesis
    using to_float_error by blast
qed

theorem builder_entries_witness:
  "0 < DisplayWidth example_display \<and> 0 < DisplayHeight example_display \<and>
   set_transformation_matrix example_display uninitialised 640 0 1280 1080 =
     [Finite (11184811 / 16777216), Finite 0, Finite (11184811 / 33554432),
      Finite 0, Finite 1, Finite 0,
      Finite 0, Finite 0, Finite 1]"
  using builder_entries [of example_display uninitialised 640 0 1280 1080]
  by (simp add: example_display_def to_float_0 to_float_1 to_float_third to_float_two_thirds)

text \<open>
  C6. For the rectangle that covers the whole display (of positive width and height)
  the builder yields exactly the identity matrix, and on a 1920x1080 display the
  rectangle (960, 0, 960, 1080) yields m00 = 0.5, m11 = 1, m02 = 0.5, m12 = 0, m22 = 1
  and 0 elsewhere.
\<close>

theorem builder_identity_and_right_half:
  "(0 < DisplayWidth dpy \<and> 0 < DisplayHeight dpy \<longrightarrow>
      set_transformation_matrix dpy m 0 0 (DisplayWidth dpy) (DisplayHeight dpy) =
        [Finite 1, Finite 0, Finite 0,
         Finite 0, Finite 1, Finite 0,
         Finite 0, Finite 0, Finite 1]) \<and>
   (DisplayWidth dpy = 1920 \<and> DisplayHeight dpy = 1080 \<longrightarrow>
      set_transformation_matrix dpy m 960 0 960 1080 =
        [Finite (1 / 2), Finite 0, Finite (1 / 2),
         Finite 0, Finite 1, Finite 0,
         Finite 0, Finite 0, Finite 1])"
  by (simp add: set_transformation_matrix_eq float_ratio to_float_0 to_float_1 to_float_half)

theorem builder_identity_and_right_half_witness:
  "set_transformation_matrix example_display uninitialised 0 0 1920 1080 =
     [Finite 1, Finite 0, Finite 0,
      Finite 0, Finite 1, Finite 0,
      Finite 0, Finite 0, Finite 1] \<and>
   set_transformation_matrix example_display uninitialised 960 0 960 1080 =
     [Finite (1 / 2), Finite 0, Finite (1 / 2),
      Finite 0, Finite 1, Finite 0,
      Finite 0, Finite 0, Finite 1]"
  using builder_identity_and_right_half [of example_display uninitialised]
  by (simp add: example_display_def)

text \<open>
  C10. What the builder yields does not depend on what the matrix held before the
  call: two calls that differ only in the initial matrix give the same matrix, and
  resetting the matrix to the identity before the call, as both resolvers do, changes
  nothing.
\<close>

theorem builder_ignores_initial_matrix:
  "set_transformation_matrix dpy m1 offset_x offset_y rect_w rect_h =
     set_transformation_matrix dpy m2 offset_x offset_y rect_w rect_h \<and>
   set_transformation_matrix dpy (matrix_set_unity m1) offset_x offset_y rect_w rect_h =
     set_transformation_matrix dpy m1 offset_x offset_y rect_w rect_h"
  by (simp add: set_transformation_matrix_eq)

theorem builder_ignores_initial_matrix_witness:
  "set_transformation_matrix example_display (replicate 9 NaN) 960 0 960 1080 =
     set_transformation_matrix example_display (replicate 9 (Finite 5)) 960 0 960 1080"
  using builder_ignores_initial_matrix
          [of example_display "replicate 9 NaN" 960 0 960 1080 "replicate 9 (Finite 5)"]
  by simp

section \<open>Strings, the output scan and the version test\<close>

lemma strcmp_eq_0: "strcmp s1 s2 = 0 \<longleftrightarrow> s1 = s2"
  by (induction s1 s2 rule: strcmp.induct) auto

lemma strncmp_prefix:
  "strncmp s ''HEAD-'' (strlen ''HEAD-'') = 0 \<longleftrightarrow> take 5 s = ''HEAD-''"
  by (simp add: strncmp_def strlen_def strcmp_eq_0 numeral_eq_Suc)

lemma scan_outputs_find:
  "scan_outputs dpy output_name outputs =
     map_option (\<lambda>output. XRRGetCrtcInfo dpy (oi_crtc (XRRGetOutputInfo dpy output)))
       (find (candidate dpy output_name) outputs)"
  by (induction outputs) (auto simp add: candidate_def Let_def strcmp_eq_0)

lemma wrap32_id: "- 2147483648 \<le> i \<Longrightarrow> i < 2147483648 \<Longrightarrow> wrap32 i = i"
  by (simp add: wrap32_def)

lemma version_code:
  assumes "0 \<le> maj" "maj \<le> 2147482" "0 \<le> minor" "minor \<le> 999"
  shows "wrap32 (wrap32 (maj * 1000) + minor) < 1002 \<longleftrightarrow> maj < 1 \<or> (maj = 1 \<and> minor < 2)"
proof -
  have "wrap32 (maj * 1000) = maj * 1000"
    using assms by (intro wrap32_id) auto
  moreover have "wrap32 (maj * 1000 + minor) = maj * 1000 + minor"
    using assms by (intro wrap32_id) auto
  ultimately show ?thesis
    using assms by auto
qed

lemma example_display_fields:
  "DisplayWidth example_display = 1920"
  "DisplayHeight example_display = 1080"
  "XInternAtom example_display = (\<lambda>name only_if_exists. if name = ''FLOAT'' then 7 else 8)"
  "XIGetProperty example_display = (\<lambda>deviceid property offset len del type. example_reply)"
  "XQueryExtension example_display = (\<lambda>name. name = ''RANDR'')"
  "XRRQueryVersion example_display = Some (1, 3)"
  "XRRGetScreenResources example_display = [10, 11]"
  "XRRGetOutputInfo example_display 10 = \<lparr>oi_crtc = 0, oi_connection = 1, oi_name = ''VGA1''\<rparr>"
  "XRRGetOutputInfo example_display 11 = \<lparr>oi_crtc = 5, oi_connection = 0, oi_name = ''HDMI1''\<rparr>"
  "XRRGetCrtcInfo example_display 5 = \<lparr>ci_x = 960, ci_y = 0, ci_width = 960, ci_height = 1080\<rparr>"
  "XineramaQueryExtension example_display"
  "XineramaQueryScreens example_display =
     (8192, [\<lparr>x_org = 0, y_org = 0, si_width = 960, si_height = 1080\<rparr>,
             \<lparr>x_org = 960, y_org = 0, si_width = 960, si_height = 1080\<rparr>])"
  "xi2_find_device_info example_display = (\<lambda>name. if name = ''pen'' then Some 12 else None)"
  "props example_display = Map.empty"
  "effects example_display = []"
  by (simp_all add: example_display_def)

section \<open>The property applier\<close>

text \<open>
  C2. Once both atoms have resolved, the applier writes the property only when the
  read succeeded with the FLOAT atom as type, format 32, nine elements and no byte
  left: then it replaces the property and returns success. When any of the five
  conditions fails it returns failure, its only effect is the diagnostic
  \<open>Failed to retrieve current property values\<close> on standard error (the spec's
  PropertyValidationError), and the device properties are what they were. More
  generally, whenever the applier does not return success it has printed one
  diagnostic on standard error and written no property.
\<close>

theorem apply_matrix_validates_before_writing:
  assumes "prop_float = XInternAtom dpy ''FLOAT'' False"
    and "prop_matrix = XInternAtom dpy ''Coordinate Transformation Matrix'' False"
    and "reply = XIGetProperty dpy deviceid prop_matrix 0 9 False prop_float"
  shows
   "(prop_float \<noteq> 0 \<and> prop_matrix \<noteq> 0 \<and>
     rc reply = Success \<and> type_return reply = prop_float \<and> format_return reply = 32 \<and>
     nitems reply = 9 \<and> bytes_after reply = 0 \<longrightarrow>
       apply_matrix dpy deviceid m =
         (EXIT_SUCCESS,
          XFree (XIChangeProperty dpy deviceid prop_matrix prop_float 32 PropModeReplace
                   (memcpy (data_f reply) m 9) 9)
            (data reply))) \<and>
    (prop_float \<noteq> 0 \<and> prop_matrix \<noteq> 0 \<and>
     \<not> (rc reply = Success \<and> type_return reply = prop_float \<and> format_return reply = 32 \<and>
        nitems reply = 9 \<and> bytes_after reply = 0) \<longrightarrow>
       fst (apply_matrix dpy deviceid m) = EXIT_FAILURE \<and>
       effects (snd (apply_matrix dpy deviceid m)) =
         effects dpy @
         [Fprintf Stderr ''Failed to retrieve current property values\<newline>'' []] \<and>
       props (snd (apply_matrix dpy deviceid m)) = props dpy) \<and>
    (fst (apply_matrix dpy deviceid m) \<noteq> EXIT_SUCCESS \<longrightarrow>
       fst (apply_matrix dpy deviceid m) = EXIT_FAILURE \<and>
       props (snd (apply_matrix dpy deviceid m)) = props dpy \<and>
       (\<exists>fmt. effects (snd (apply_matrix dpy deviceid m)) =
                effects dpy @ [Fprintf Stderr fmt []]))"
  using assms by (auto simp add: apply_matrix_def Let_def fprintf_def)

theorem apply_matrix_validates_before_writing_witness:
  "apply_matrix example_display 12 (matrix_set_unity uninitialised) =
     (EXIT_SUCCESS,
      XFree (XIChangeProperty example_display 12 8 7 32 PropModeReplace
               (memcpy (replicate 9 (Finite 0)) (matrix_set_unity uninitialised) 9) 9)
        4096) \<and>
   fst (apply_matrix
          (example_display\<lparr>XIGetProperty := \<lambda>deviceid property offset len del type.
             example_reply\<lparr>nitems := 8\<rparr>\<rparr>) 12 uninitialised) = EXIT_FAILURE \<and>
   effects (snd (apply_matrix
          (example_display\<lparr>XIGetProperty := \<lambda>deviceid property offset len del type.
             example_reply\<lparr>nitems := 8\<rparr>\<rparr>) 12 uninitialised)) =
     [Fprintf Stderr ''Failed to retrieve current property values\<newline>'' []] \<and>
   props (snd (apply_matrix
          (example_display\<lparr>XIGetProperty := \<lambda>deviceid property offset len del type.
             example_reply\<lparr>nitems := 8\<rparr>\<rparr>) 12 uninitialised)) = Map.empty"
  using apply_matrix_validates_before_writing
          [of 7 example_display 8 example_reply 12 "matrix_set_unity uninitialised"]
        apply_matrix_validates_before_writing
          [of 7 "example_display\<lparr>XIGetProperty := \<lambda>deviceid property offset len del type.
                 example_reply\<lparr>nitems := 8\<rparr>\<rparr>" 8 "example_reply\<lparr>nitems := 8\<rparr>" 12 uninitialised]
  by (simp add: example_display_fields example_reply_def Success_def)

section \<open>The dispatcher\<close>

text \<open>
  C3 (as amended). The dispatcher selects the Xinerama resolver if and only if the
  NV-CONTROL extension is present, or the RANDR extension is absent, or the RandR
  version query fails, or the reported version is below 1.2; otherwise it selects the
  RandR resolver; and \<open>map_to_crtc\<close>, given two arguments and a device it finds, runs the
  resolver selected on the second argument. This holds for every reported version \<open>major.minor\<close> with
  \<open>0 \<le> major \<le> 2147482\<close> and \<open>0 \<le> minor \<le> 999\<close>, where the test the code makes,
  \<open>major * 1000 + minor < 1002\<close>, neither overflows nor confuses a large minor number
  with a major one.
\<close>

theorem select_backend_policy:
  assumes "case XRRQueryVersion dpy of
             None \<Rightarrow> True
           | Some (maj, minor) \<Rightarrow> 0 \<le> maj \<and> maj \<le> 2147482 \<and> 0 \<le> minor \<and> minor \<le> 999"
  shows "(select_backend dpy = Xinerama \<longleftrightarrow>
            XQueryExtension dpy ''NV-CONTROL'' \<or> \<not> XQueryExtension dpy ''RANDR'' \<or>
            (case XRRQueryVersion dpy of None \<Rightarrow> True | Some v \<Rightarrow> below_1_2 v)) \<and>
         (select_backend dpy = RandR \<longleftrightarrow>
            \<not> (XQueryExtension dpy ''NV-CONTROL'' \<or> \<not> XQueryExtension dpy ''RANDR'' \<or>
               (case XRRQueryVersion dpy of None \<Rightarrow> True | Some v \<Rightarrow> below_1_2 v))) \<and>
         (2 \<le> argc \<and> 2 \<le> length argv \<and> xi2_find_device_info dpy (argv ! 0) = Some deviceid \<longrightarrow>
            map_to_crtc dpy argc argv name desc =
              (if XQueryExtension dpy ''NV-CONTROL'' \<or> \<not> XQueryExtension dpy ''RANDR'' \<or>
                  (case XRRQueryVersion dpy of None \<Rightarrow> True | Some v \<Rightarrow> below_1_2 v)
               then map_crtc_xinerama dpy deviceid (argv ! 1)
               else Inr (map_crtc_xrandr dpy deviceid (argv ! 1))))"
proof -
  have test: "(case XRRQueryVersion dpy of
                 None \<Rightarrow> True
               | Some (maj, minor) \<Rightarrow> wrap32 (wrap32 (maj * 1000) + minor) < 1002) \<longleftrightarrow>
              (case XRRQueryVersion dpy of None \<Rightarrow> True | Some v \<Rightarrow> below_1_2 v)"
  proof (cases "XRRQueryVersion dpy")
    case None
    then show ?thesis
      by simp
  next
    case (Some v)
    obtain maj minor where v: "v = (maj, minor)"
      by (cases v)
    with Some assms have "0 \<le> maj" "maj \<le> 2147482" "0 \<le> minor" "minor \<le> 999"
      by simp_all
    then have "wrap32 (wrap32 (maj * 1000) + minor) < 1002 \<longleftrightarrow> below_1_2 v"
      using version_code [of maj minor] by (simp add: below_1_2_def v)
    with Some v show ?thesis
      by simp
  qed
  have sel: "select_backend dpy =
      (if XQueryExtension dpy ''NV-CONTROL'' \<or> \<not> XQueryExtension dpy ''RANDR'' \<or>
          (case XRRQueryVersion dpy of None \<Rightarrow> True | Some v \<Rightarrow> below_1_2 v)
       then Xinerama else RandR)"
    unfolding select_backend_def test by (rule refl)
  show ?thesis
    by (simp add: sel map_to_crtc_def)
qed

theorem select_backend_policy_witness:
  "select_backend example_display = RandR \<and>
   select_backend (example_display\<lparr>XRRQueryVersion := Some (1, 1)\<rparr>) = Xinerama \<and>
   select_backend (example_display\<lparr>XRRQueryVersion := None\<rparr>) = Xinerama \<and>
   select_backend (example_display\<lparr>XQueryExtension := \<lambda>name. True\<rparr>) = Xinerama \<and>
   select_backend (example_display\<lparr>XQueryExtension := \<lambda>name. False\<rparr>) = Xinerama"
  using select_backend_policy [of example_display]
    select_backend_policy [of "example_display\<lparr>XRRQueryVersion := Some (1, 1)\<rparr>"]
    select_backend_policy [of "example_display\<lparr>XRRQueryVersion := None\<rparr>"]
    select_backend_policy [of "example_display\<lparr>XQueryExtension := \<lambda>name. True\<rparr>"]
    select_backend_policy [of "example_display\<lparr>XQueryExtension := \<lambda>name. False\<rparr>"]
  by (simp add: example_display_def below_1_2_def)

text \<open>
  The claim as it was stated fails where the version query itself fails: NV-CONTROL is
  absent, RANDR is present and no version is reported, yet Xinerama is selected. It
  also fails for a reported version 0.1002, which is below 1.2 and selects RandR.
\<close>

theorem select_backend_counterexample:
  "select_backend (example_display\<lparr>XRRQueryVersion := None\<rparr>) = Xinerama \<and>
   XQueryExtension (example_display\<lparr>XRRQueryVersion := None\<rparr>) ''NV-CONTROL'' = False \<and>
   XQueryExtension (example_display\<lparr>XRRQueryVersion := None\<rparr>) ''RANDR'' = True \<and>
   XRRQueryVersion (example_display\<lparr>XRRQueryVersion := None\<rparr>) = None \<and>
   select_backend (example_display\<lparr>XRRQueryVersion := Some (0, 1002)\<rparr>) = RandR \<and>
   below_1_2 (0, 1002)"
  by (simp add: select_backend_def example_display_def below_1_2_def wrap32_def)

section \<open>The Xinerama resolver\<close>

text \<open>
  C4. Without the Xinerama extension the resolver fails at once. With the extension
  present, for every output name: a name shorter than six characters or without the
  prefix \<open>HEAD-\<close> fails with the diagnostic \<open>Please specify the output name as HEAD-X\<close>
  (the spec's InvalidOutputName), before any screen is queried. Otherwise the screen
  index is the character after the prefix minus the character \<open>0\<close>; the resolver fails
  with \<open>Xinerama failed to query screens\<close> (NoScreensFound) when no screen is reported,
  with \<open>Found %d screens, but you requested %s\<close> (ScreenIndexOutOfRange) when the index
  is at least the number of screens, and for an index from 0 up to that number it
  applies the matrix of the screen at that index. Every path frees the screen list
  once.
\<close>

theorem xinerama_name_and_count_checks:
  assumes "XineramaQueryScreens dpy = (screens, screen_array)"
  shows
   "(\<not> XineramaQueryExtension dpy \<longrightarrow>
       map_crtc_xinerama dpy deviceid output_name =
         Inr (EXIT_FAILURE,
              XFree (fprintf dpy Stderr
                ''Unable to set screen mapping. Xinerama extension not found\<newline>'' [])
                NULL)) \<and>
    (XineramaQueryExtension dpy \<and>
     (length output_name < 6 \<or> take 5 output_name \<noteq> ''HEAD-'') \<longrightarrow>
       map_crtc_xinerama dpy deviceid output_name =
         Inr (EXIT_FAILURE,
              XFree (fprintf dpy Stderr
                ''Please specify the output name as HEAD-X,where X is the screen number\<newline>'' [])
                NULL)) \<and>
    (XineramaQueryExtension dpy \<and>
     6 \<le> length output_name \<and> take 5 output_name = ''HEAD-'' \<longrightarrow>
       (screen_array = [] \<longrightarrow>
          map_crtc_xinerama dpy deviceid output_name =
            Inr (EXIT_FAILURE,
                 XFree (fprintf dpy Stderr ''Xinerama failed to query screens.\<newline>'' [])
                   screens)) \<and>
       (screen_array \<noteq> [] \<and>
        int (length screen_array) \<le> char_to_int (output_name ! 5) - 48 \<longrightarrow>
          map_crtc_xinerama dpy deviceid output_name =
            Inr (EXIT_FAILURE,
                 XFree (fprintf dpy Stderr ''Found %d screens, but you requested %s.\<newline>''
                          [I (int (length screen_array)), S output_name])
                   screens)) \<and>
       (0 \<le> char_to_int (output_name ! 5) - 48 \<and>
        char_to_int (output_name ! 5) - 48 < int (length screen_array) \<longrightarrow>
          map_crtc_xinerama dpy deviceid output_name =
            (let scr = screen_array ! nat (char_to_int (output_name ! 5) - 48);
                 (status, dpy') =
                   apply_matrix dpy deviceid
                     (set_transformation_matrix dpy uninitialised (x_org scr) (y_org scr)
                        (si_width scr) (si_height scr))
             in Inr (status, XFree dpy' screens))))"
proof -
  have zero: "char_to_int CHR ''0'' = 48"
    by (simp add: char_to_int_def)
  have len: "strlen ''HEAD-'' = 5"
    by (simp add: strlen_def)
  have pre: "strncmp s ''HEAD-'' 5 = 0 \<longleftrightarrow> take 5 s = ''HEAD-''" for s
    using strncmp_prefix [of s] by (simp only: len)
  have same: "set_transformation_matrix dpy (matrix_set_unity uninitialised) a b c d =
      set_transformation_matrix dpy uninitialised a b c d" for a b c d
    by (simp add: set_transformation_matrix_eq)
  show ?thesis
    using assms unfolding map_crtc_xinerama_def Let_def len zero same pre
    by (auto simp add: strlen_def)
qed

theorem xinerama_name_and_count_checks_witness:
  "map_crtc_xinerama example_display 12 ''HEAD'' =
     Inr (EXIT_FAILURE,
          XFree (fprintf example_display Stderr
            ''Please specify the output name as HEAD-X,where X is the screen number\<newline>'' [])
            NULL) \<and>
   map_crtc_xinerama example_display 12 ''FOO-1'' =
     Inr (EXIT_FAILURE,
          XFree (fprintf example_display Stderr
            ''Please specify the output name as HEAD-X,where X is the screen number\<newline>'' [])
            NULL) \<and>
   map_crtc_xinerama example_display 12 ''HEAD-3'' =
     Inr (EXIT_FAILURE,
          XFree (fprintf example_display Stderr
            ''Found %d screens, but you requested %s.\<newline>'' [I 2, S ''HEAD-3''])
            8192) \<and>
   map_crtc_xinerama (example_display\<lparr>XineramaQueryScreens := (NULL, [])\<rparr>) 12 ''HEAD-0'' =
     Inr (EXIT_FAILURE,
          XFree (fprintf (example_display\<lparr>XineramaQueryScreens := (NULL, [])\<rparr>) Stderr
            ''Xinerama failed to query screens.\<newline>'' [])
            NULL) \<and>
   map_crtc_xinerama example_display 12 ''HEAD-0'' =
     (let (status, dpy') =
            apply_matrix example_display 12
              (set_transformation_matrix example_display uninitialised 0 0 960 1080)
      in Inr (status, XFree dpy' 8192))"
  using xinerama_name_and_count_checks
      [where dpy = example_display and output_name = "''HEAD''" and deviceid = 12]
    xinerama_name_and_count_checks
      [where dpy = example_display and output_name = "''FOO-1''" and deviceid = 12]
    xinerama_name_and_count_checks
      [where dpy = example_display and output_name = "''HEAD-3''" and deviceid = 12]
    xinerama_name_and_count_checks
      [where dpy = "example_display\<lparr>XineramaQueryScreens := (NULL, [])\<rparr>"
         and output_name = "''HEAD-0''" and deviceid = 12]
    xinerama_name_and_count_checks
      [where dpy = example_display and output_name = "''HEAD-0''" and deviceid = 12]
  by (simp add: example_display_fields char_to_int_def Let_def)

text \<open>
  C9. The claim is that the index read from the name is within the screen array
  whenever the checks pass. The code compares the index with the number of screens
  only from above: for a name whose sixth character is below \<open>0\<close> in the character
  set, the index is negative, both tests on \<open>nscreens\<close> pass, and \<open>screens[head]\<close> reads
  before the array.
\<close>

theorem xinerama_index_below_zero:
  assumes "XineramaQueryExtension dpy"
    and "XineramaQueryScreens dpy = (screens, screen_array)"
    and "screen_array \<noteq> []"
    and "char_to_int c < 48"
  shows "map_crtc_xinerama dpy deviceid (''HEAD-'' @ c # rest) = Inl OutOfBounds"
proof -
  have zero: "char_to_int CHR ''0'' = 48"
    by (simp add: char_to_int_def)
  have len: "strlen ''HEAD-'' = 5"
    by (simp add: strlen_def)
  have pre: "strncmp s ''HEAD-'' 5 = 0 \<longleftrightarrow> take 5 s = ''HEAD-''" for s
    using strncmp_prefix [of s] by (simp only: len)
  show ?thesis
    using assms unfolding map_crtc_xinerama_def Let_def len zero pre
    by (auto simp add: strlen_def)
qed

theorem xinerama_index_below_zero_witness:
  "map_crtc_xinerama example_display 12 ''HEAD-/'' = Inl OutOfBounds \<and>
   char_to_int (''HEAD-/'' ! 5) - char_to_int CHR ''0'' = - 1"
  using xinerama_index_below_zero [of example_display 8192 _ "CHR ''/''" 12 "[]"]
  by (simp add: example_display_fields char_to_int_def)

section \<open>The RandR resolver\<close>

text \<open>
  C5. The RandR resolver takes the first output, in the order the server returned
  them, that has a CRTC, is connected and bears exactly the requested name; outputs
  without a CRTC or not connected are passed over whatever their name. On a match it
  builds the matrix from the rectangle (x, y, width, height) of that output's CRTC and
  applies it: where the device has a well-formed property, the property becomes the
  nine floats \<open>width / W, 0, x / W, 0, height / H, y / H, 0, 0, 1\<close> of that rectangle
  (each quotient the one the C expression computes), written by one property change
  of nine elements, and the call returns success; where the validation of the
  property fails, no property is written. With no match it prints
  \<open>Unable to find output\<close>, returns failure, and writes no property. Either way it
  releases the screen resources last.
\<close>

theorem xrandr_first_matching_output:
  assumes "prop_float = XInternAtom dpy ''FLOAT'' False"
    and "prop_matrix = XInternAtom dpy ''Coordinate Transformation Matrix'' False"
    and "reply = XIGetProperty dpy deviceid prop_matrix 0 9 False prop_float"
    and "width = DisplayWidth dpy" and "height = DisplayHeight dpy"
  shows
  "map_crtc_xrandr dpy deviceid output_name =
     (case find (candidate dpy output_name) (XRRGetScreenResources dpy) of
        None \<Rightarrow>
          (EXIT_FAILURE,
           XRRFreeScreenResources
             (fprintf dpy Stdout
                ''Unable to find output '%s'. Output may not be connected.\<newline>''
                [S output_name]))
      | Some output \<Rightarrow>
          let crtc_info = XRRGetCrtcInfo dpy (oi_crtc (XRRGetOutputInfo dpy output));
              (status, dpy') =
                apply_matrix dpy deviceid
                  (set_transformation_matrix dpy uninitialised
                     (ci_x crtc_info) (ci_y crtc_info)
                     (int_of_unsigned (ci_width crtc_info))
                     (int_of_unsigned (ci_height crtc_info)))
          in (status, XRRFreeScreenResources dpy')) \<and>
   (find (candidate dpy output_name) (XRRGetScreenResources dpy) = None \<longrightarrow>
      props (snd (map_crtc_xrandr dpy deviceid output_name)) = props dpy \<and>
      effects (snd (map_crtc_xrandr dpy deviceid output_name)) =
        effects dpy @
        [Fprintf Stdout ''Unable to find output '%s'. Output may not be connected.\<newline>''
           [S output_name],
         FreeScreenResources]) \<and>
   (find (candidate dpy output_name) (XRRGetScreenResources dpy) = Some matched \<and>
    crtc_info = XRRGetCrtcInfo dpy (oi_crtc (XRRGetOutputInfo dpy matched)) \<and>
    prop_float \<noteq> 0 \<and> prop_matrix \<noteq> 0 \<and>
    rc reply = Success \<and> type_return reply = prop_float \<and> format_return reply = 32 \<and>
    nitems reply = 9 \<and> bytes_after reply = 0 \<longrightarrow>
      fst (map_crtc_xrandr dpy deviceid output_name) = EXIT_SUCCESS \<and>
      props (snd (map_crtc_xrandr dpy deviceid output_name)) =
        (props dpy)((deviceid, prop_matrix) \<mapsto>
          (prop_float, 32,
           [float_of_double (double_div (int_of_unsigned (ci_width crtc_info)) width),
            Finite 0,
            float_of_double (double_div (ci_x crtc_info) width),
            Finite 0,
            float_of_double (double_div (int_of_unsigned (ci_height crtc_info)) height),
            float_of_double (double_div (ci_y crtc_info) height),
            Finite 0, Finite 0, Finite 1])) \<and>
      effects (snd (map_crtc_xrandr dpy deviceid output_name)) =
        effects dpy @
        [ChangeProperty deviceid prop_matrix prop_float 32 PropModeReplace
           ([float_of_double (double_div (int_of_unsigned (ci_width crtc_info)) width),
             Finite 0,
             float_of_double (double_div (ci_x crtc_info) width),
             Finite 0,
             float_of_double (double_div (int_of_unsigned (ci_height crtc_info)) height),
             float_of_double (double_div (ci_y crtc_info) height),
             Finite 0, Finite 0, Finite 1] @ drop 9 (data_f reply))
           9,
         Free (data reply),
         FreeScreenResources]) \<and>
   (find (candidate dpy output_name) (XRRGetScreenResources dpy) = Some matched \<and>
    prop_float \<noteq> 0 \<and> prop_matrix \<noteq> 0 \<and>
    \<not> (rc reply = Success \<and> type_return reply = prop_float \<and> format_return reply = 32 \<and>
       nitems reply = 9 \<and> bytes_after reply = 0) \<longrightarrow>
      fst (map_crtc_xrandr dpy deviceid output_name) = EXIT_FAILURE \<and>
      props (snd (map_crtc_xrandr dpy deviceid output_name)) = props dpy \<and>
      effects (snd (map_crtc_xrandr dpy deviceid output_name)) =
        effects dpy @
        [Fprintf Stderr ''Failed to retrieve current property values\<newline>'' [],
         FreeScreenResources])"
proof -
  have same: "set_transformation_matrix dpy (matrix_set_unity uninitialised) a b c d =
      set_transformation_matrix dpy uninitialised a b c d" for a b c d
    by (simp add: set_transformation_matrix_eq)
  have scan: "map_crtc_xrandr dpy deviceid output_name =
     (case find (candidate dpy output_name) (XRRGetScreenResources dpy) of
        None \<Rightarrow>
          (EXIT_FAILURE,
           XRRFreeScreenResources
             (fprintf dpy Stdout
                ''Unable to find output '%s'. Output may not be connected.\<newline>''
                [S output_name]))
      | Some output \<Rightarrow>
          let crtc_info = XRRGetCrtcInfo dpy (oi_crtc (XRRGetOutputInfo dpy output));
              (status, dpy') =
                apply_matrix dpy deviceid
                  (set_transformation_matrix dpy uninitialised
                     (ci_x crtc_info) (ci_y crtc_info)
                     (int_of_unsigned (ci_width crtc_info))
                     (int_of_unsigned (ci_height crtc_info)))
          in (status, XRRFreeScreenResources dpy'))"
    by (simp add: map_crtc_xrandr_def scan_outputs_find same Let_def
        split: option.splits prod.splits)
  have none: "find (candidate dpy output_name) (XRRGetScreenResources dpy) = None \<longrightarrow>
      props (snd (map_crtc_xrandr dpy deviceid output_name)) = props dpy \<and>
      effects (snd (map_crtc_xrandr dpy deviceid output_name)) =
        effects dpy @
        [Fprintf Stdout ''Unable to find output '%s'. Output may not be connected.\<newline>''
           [S output_name],
         FreeScreenResources]"
    by (simp add: scan fprintf_def XRRFreeScreenResources_def)
  have written: "find (candidate dpy output_name) (XRRGetScreenResources dpy) = Some matched \<and>
    crtc_info = XRRGetCrtcInfo dpy (oi_crtc (XRRGetOutputInfo dpy matched)) \<and>
    prop_float \<noteq> 0 \<and> prop_matrix \<noteq> 0 \<and>
    rc reply = Success \<and> type_return reply = prop_float \<and> format_return reply = 32 \<and>
    nitems reply = 9 \<and> bytes_after reply = 0 \<longrightarrow>
      fst (map_crtc_xrandr dpy deviceid output_name) = EXIT_SUCCESS \<and>
      props (snd (map_crtc_xrandr dpy deviceid output_name)) =
        (props dpy)((deviceid, prop_matrix) \<mapsto>
          (prop_float, 32,
           [float_of_double (double_div (int_of_unsigned (ci_width crtc_info)) width),
            Finite 0,
            float_of_double (double_div (ci_x crtc_info) width),
            Finite 0,
            float_of_double (double_div (int_of_unsigned (ci_height crtc_info)) height),
            float_of_double (double_div (ci_y crtc_info) height),
            Finite 0, Finite 0, Finite 1])) \<and>
      effects (snd (map_crtc_xrandr dpy deviceid output_name)) =
        effects dpy @
        [ChangeProperty deviceid prop_matrix prop_float 32 PropModeReplace
           ([float_of_double (double_div (int_of_unsigned (ci_width crtc_info)) width),
             Finite 0,
             float_of_double (double_div (ci_x crtc_info) width),
             Finite 0,
             float_of_double (double_div (int_of_unsigned (ci_height crtc_info)) height),
             float_of_double (double_div (ci_y crtc_info) height),
             Finite 0, Finite 0, Finite 1] @ drop 9 (data_f reply))
           9,
         Free (data reply),
         FreeScreenResources]"
    using assms
    by (simp add: scan apply_matrix_def set_transformation_matrix_eq Let_def memcpy_def
        XIChangeProperty_def XFree_def XRRFreeScreenResources_def PropModeReplace_def
        numeral_eq_Suc)
  have refused: "find (candidate dpy output_name) (XRRGetScreenResources dpy) = Some matched \<and>
    prop_float \<noteq> 0 \<and> prop_matrix \<noteq> 0 \<and>
    \<not> (rc reply = Success \<and> type_return reply = prop_float \<and> format_return reply = 32 \<and>
       nitems reply = 9 \<and> bytes_after reply = 0) \<longrightarrow>
      fst (map_crtc_xrandr dpy deviceid output_name) = EXIT_FAILURE \<and>
      props (snd (map_crtc_xrandr dpy deviceid output_name)) = props dpy \<and>
      effects (snd (map_crtc_xrandr dpy deviceid output_name)) =
        effects dpy @
        [Fprintf Stderr ''Failed to retrieve current property values\<newline>'' [],
         FreeScreenResources]"
    using assms
    by (auto simp add: scan apply_matrix_def Let_def fprintf_def XRRFreeScreenResources_def)
  show ?thesis
    using scan none written refused by blast
qed

theorem xrandr_first_matching_output_witness:
  "fst (map_crtc_xrandr example_display 12 ''HDMI1'') = EXIT_SUCCESS \<and>
   props (snd (map_crtc_xrandr example_display 12 ''HDMI1'')) =
     [(12, 8) \<mapsto>
        (7, 32,
         [Finite (1 / 2), Finite 0, Finite (1 / 2),
          Finite 0, Finite 1, Finite 0,
          Finite 0, Finite 0, Finite 1])] \<and>
   effects (snd (map_crtc_xrandr example_display 12 ''HDMI1'')) =
     [ChangeProperty 12 8 7 32 PropModeReplace
        [Finite (1 / 2), Finite 0, Finite (1 / 2),
         Finite 0, Finite 1, Finite 0,
         Finite 0, Finite 0, Finite 1]
        9,
      Free 4096,
      FreeScreenResources] \<and>
   fst (map_crtc_xrandr
          (example_display\<lparr>XIGetProperty := \<lambda>deviceid property offset len del type.
             example_reply\<lparr>nitems := 8\<rparr>\<rparr>) 12 ''HDMI1'') = EXIT_FAILURE \<and>
   props (snd (map_crtc_xrandr
          (example_display\<lparr>XIGetProperty := \<lambda>deviceid property offset len del type.
             example_reply\<lparr>nitems := 8\<rparr>\<rparr>) 12 ''HDMI1'')) = Map.empty \<and>
   effects (snd (map_crtc_xrandr example_display 12 ''VGA1'')) =
     [Fprintf Stdout ''Unable to find output '%s'. Output may not be connected.\<newline>''
        [S ''VGA1''],
      FreeScreenResources] \<and>
   props (snd (map_crtc_xrandr example_display 12 ''VGA1'')) = Map.empty"
  using xrandr_first_matching_output
      [where dpy = example_display and deviceid = 12 and output_name = "''HDMI1''"
         and matched = 11 and prop_float = 7 and prop_matrix = 8 and reply = example_reply
         and width = 1920 and height = 1080
         and crtc_info = "\<lparr>ci_x = 960, ci_y = 0, ci_width = 960, ci_height = 1080\<rparr>",
       THEN conjunct2]
    xrandr_first_matching_output
      [where dpy = "example_display\<lparr>XIGetProperty := \<lambda>deviceid property offset len del type.
                 example_reply\<lparr>nitems := 8\<rparr>\<rparr>"
         and deviceid = 12 and output_name = "''HDMI1''"
         and matched = 11 and prop_float = 7 and prop_matrix = 8
         and reply = "example_reply\<lparr>nitems := 8\<rparr>"
         and width = 1920 and height = 1080, THEN conjunct2]
    xrandr_first_matching_output
      [where dpy = example_display and deviceid = 12 and output_name = "''VGA1''"
         and prop_float = 7 and prop_matrix = 8 and reply = example_reply
         and width = 1920 and height = 1080, THEN conjunct2]
  by (simp add: example_display_fields example_reply_def candidate_def RR_Connected_def
      Success_def int_of_unsigned_def wrap32_def float_ratio to_float_0 to_float_1
      to_float_half)

text \<open>
  C8. The claim is that every failure path prints its diagnostic to standard error.
  The path of the RandR resolver on which no output matches prints with \<open>printf\<close>: the
  diagnostic goes to standard output and nothing reaches standard error, while the
  call returns failure.
\<close>

theorem xrandr_not_found_goes_to_stdout:
  assumes "find (candidate dpy output_name) (XRRGetScreenResources dpy) = None"
  shows "fst (map_crtc_xrandr dpy deviceid output_name) = EXIT_FAILURE \<and>
         effects (snd (map_crtc_xrandr dpy deviceid output_name)) =
           effects dpy @
           [Fprintf Stdout ''Unable to find output '%s'. Output may not be connected.\<newline>''
              [S output_name],
            FreeScreenResources]"
  using assms
  by (simp add: map_crtc_xrandr_def scan_outputs_find fprintf_def XRRFreeScreenResources_def)

theorem xrandr_not_found_goes_to_stdout_witness:
  "map_to_crtc example_display 2 [''pen'', ''VGA1''] ''map-to-output'' ''<device> <output name>'' =
     Inr (map_crtc_xrandr example_display 12 ''VGA1'') \<and>
   fst (map_crtc_xrandr example_display 12 ''VGA1'') = EXIT_FAILURE \<and>
   effects (snd (map_crtc_xrandr example_display 12 ''VGA1'')) =
     [Fprintf Stdout ''Unable to find output '%s'. Output may not be connected.\<newline>''
        [S ''VGA1''],
      FreeScreenResources]"
  using xrandr_not_found_goes_to_stdout [of example_display "''VGA1''" 12]
  by (simp add: example_display_fields candidate_def RR_Connected_def map_to_crtc_def
      select_backend_def wrap32_def)

section \<open>The buffer of the property read\<close>

text \<open>
  C7. The claim is that the buffer the property read returned is freed exactly once on
  every path after the read. The applier frees it once after a write, and not at all
  when the validation fails: that path returns with the buffer still allocated.
\<close>

theorem apply_matrix_frees_only_after_writing:
  assumes "XInternAtom dpy ''FLOAT'' False = prop_float" and "prop_float \<noteq> 0"
    and "XInternAtom dpy ''Coordinate Transformation Matrix'' False = prop_matrix"
    and "prop_matrix \<noteq> 0"
    and "XIGetProperty dpy deviceid prop_matrix 0 9 False prop_float = reply"
  shows "count_list (effects (snd (apply_matrix dpy deviceid m))) (Free (data reply)) =
         count_list (effects dpy) (Free (data reply)) +
         (if rc reply = Success \<and> type_return reply = prop_float \<and> format_return reply = 32 \<and>
             nitems reply = 9 \<and> bytes_after reply = 0 then 1 else 0)"
  using assms
  by (auto simp add: apply_matrix_def Let_def fprintf_def XFree_def XIChangeProperty_def)

theorem apply_matrix_frees_only_after_writing_witness:
  "count_list
     (effects (snd (apply_matrix
        (example_display\<lparr>XIGetProperty := \<lambda>deviceid property offset len del type.
           example_reply\<lparr>nitems := 8, data_f := replicate 8 (Finite 0)\<rparr>\<rparr>) 12 uninitialised)))
     (Free 4096) = 0 \<and>
   count_list (effects (snd (apply_matrix example_display 12 uninitialised))) (Free 4096) = 1"
  using apply_matrix_frees_only_after_writing
          [of "example_display\<lparr>XIGetProperty := \<lambda>deviceid property offset len del type.
                 example_reply\<lparr>nitems := 8, data_f := replicate 8 (Finite 0)\<rparr>\<rparr>" 7 8 12
              "example_reply\<lparr>nitems := 8, data_f := replicate 8 (Finite 0)\<rparr>" uninitialised]
        apply_matrix_frees_only_after_writing [of example_display 7 8 12 example_reply uninitialised]
  by (simp add: example_display_fields example_reply_def Success_def)

end
